theory Spec2Isabelle
  imports Complex_Main "HOL-Library.Word"
begin

section \<open>JavaScript values used by the data-access layer\<close>

text \<open>
  A JavaScript string is a sequence of UTF-16 code units and \<open>length\<close> counts them.
  A \<open>Date\<close> is its time value, the milliseconds since the epoch. A \<open>number\<close> is a
  double: a finite value (always a rational), NaN, or one of the two infinities.
\<close>

type_synonym code_unit = "16 word"
type_synonym jsstring = "code_unit list"
type_synonym Date = int

datatype number = Num rat | NaN | PosInfinity | NegInfinity

definition isInteger :: "number \<Rightarrow> bool" where
  "isInteger n = (case n of Num q \<Rightarrow> of_int \<lfloor>q\<rfloor> = q | _ \<Rightarrow> False)"

text \<open>The comparison \<open>n <= 0\<close>; every comparison with NaN is false.\<close>

definition le_zero :: "number \<Rightarrow> bool" where
  "le_zero n = (case n of Num q \<Rightarrow> q \<le> 0 | NaN \<Rightarrow> False
     | PosInfinity \<Rightarrow> False | NegInfinity \<Rightarrow> True)"

text \<open>
  \<open>String.prototype.trim\<close> removes the WhiteSpace and LineTerminator code points of
  ECMAScript from both ends; all of them lie in the basic plane, so each is one code unit.
\<close>

definition isWhiteSpace :: "code_unit \<Rightarrow> bool" where
  "isWhiteSpace c =
     (c \<in> set [0x0009, 0x000A, 0x000B, 0x000C, 0x000D, 0x0020, 0x00A0, 0x1680,
               0x2028, 0x2029, 0x202F, 0x205F, 0x3000, 0xFEFF]
      \<or> (0x2000 \<le> c \<and> c \<le> 0x200A))"

definition trim :: "jsstring \<Rightarrow> jsstring" where
  "trim s = rev (dropWhile isWhiteSpace (rev (dropWhile isWhiteSpace s)))"

section \<open>Error taxonomy (errors.ts)\<close>

text \<open>
  A message is either a fixed text or a template literal that ends in an interpolated
  number (\<open>`Invalid todo ID: ${id}`\<close>). A \<open>ValidationError\<close> carries the optional name
  of the offending field.
\<close>

datatype message = Text string | TextId string number

datatype error = ValidationError message "string option" | DatabaseError message

section \<open>Data model (todos.ts, database schema)\<close>

text \<open>
  The types are the ones \<open>todos.ts\<close> declares: \<open>priority\<close> is the union of the
  three literals, an optional field is an \<open>option\<close> with \<open>None\<close> for
  \<open>undefined\<close>, \<open>description\<close> of a record is \<open>string | null\<close>. The title of
  \<open>CreateTodoData\<close> is an \<open>option\<close> as well: \<open>createTodo\<close> tests \<open>!data.title\<close>,
  and the form handler passes a missing form field on as it is. Field names of the input
  types carry a prefix (\<open>c_\<close>, \<open>u_\<close>, \<open>f_\<close>) to keep them apart from those of
  \<open>Todo\<close>.
\<close>

datatype priority = Low | Medium | High

record Todo =
  todo_id :: int
  title :: jsstring
  description :: "jsstring option"
  completed :: bool
  priority :: priority
  createdAt :: Date
  updatedAt :: Date

record CreateTodoData =
  c_title :: "jsstring option"
  c_description :: "jsstring option"
  c_priority :: "priority option"

record UpdateTodoData =
  u_title :: "jsstring option"
  u_description :: "jsstring option"
  u_completed :: "bool option"
  u_priority :: "priority option"

record TodoFilter =
  f_completed :: "bool option"
  f_priority :: "priority option"
  f_search :: "jsstring option"

datatype sort_field = CreatedAt | UpdatedAt | Title | Priority
datatype sort_order = Asc | Desc

record TodoSort =
  field :: sort_field
  order :: sort_order

record TodoPagination =
  limit :: int
  offset :: int

record PriorityCounts =
  low :: nat
  medium :: nat
  high :: nat

record TodoStats =
  stat_total :: nat
  stat_completed :: nat
  stat_pending :: nat
  byPriority :: PriorityCounts

text \<open>
  A row of table \<open>todos\<close>. The two time columns are \<open>integer\<close> columns in mode
  \<open>timestamp\<close>: they hold whole seconds, the driver mapping a \<open>Date\<close> to
  \<open>floor (ms / 1000)\<close> on the way in and a stored value to \<open>new Date(s * 1000)\<close> on the
  way out.
\<close>

record todos_row =
  col_id :: int
  col_title :: jsstring
  col_description :: "jsstring option"
  col_completed :: bool
  col_priority :: priority
  col_createdAt :: int
  col_updatedAt :: int

definition mapToDriverValue :: "Date \<Rightarrow> int" where
  "mapToDriverValue d = d div 1000"

definition mapFromDriverValue :: "int \<Rightarrow> Date" where
  "mapFromDriverValue s = s * 1000"

definition fromRow :: "todos_row \<Rightarrow> Todo" where
  "fromRow r = \<lparr>todo_id = col_id r, title = col_title r, description = col_description r,
     completed = col_completed r, priority = col_priority r,
     createdAt = mapFromDriverValue (col_createdAt r),
     updatedAt = mapFromDriverValue (col_updatedAt r)\<rparr>"

section \<open>The storage engine\<close>

text \<open>
  The statements the data-access layer builds. \<open>TitleOrDescriptionLike p\<close> is the group
  \<open>or(like(title, p), like(description, p))\<close>. An \<open>Update\<close> carries the object given
  to \<open>set\<close>: the optional fields and the \<open>updatedAt\<close> date.
\<close>

datatype condition =
    IdEq number
  | CompletedEq bool
  | PriorityEq priority
  | TitleOrDescriptionLike jsstring

datatype statement =
    Select "condition list" "TodoSort option" "int option" "int option"
  | SelectCount "condition list"
  | Insert jsstring "jsstring option" priority bool Date Date
  | Update UpdateTodoData Date number
  | Delete number

text \<open>
  The database handle: the rows of the table in rowid order, the \<open>AUTOINCREMENT\<close>
  sequence (the largest rowid handed out so far), the statements sent to the engine so
  far, and the positions in that stream at which the engine raises instead of answering.
\<close>

record database =
  rows :: "todos_row list"
  sequence :: int
  sent :: "statement list"
  faults :: "nat list"

text \<open>Sending a statement records it; the flag tells whether the engine answers.\<close>

definition issue :: "statement \<Rightarrow> database \<Rightarrow> bool \<times> database" where
  "issue s db = (length (sent db) \<notin> set (faults db), db\<lparr>sent := sent db @ [s]\<rparr>)"

text \<open>
  The \<open>LIKE\<close> operator of SQLite, pattern first: \<open>%\<close> matches any sequence, \<open>_\<close> any
  one character, and the letters of ASCII match without regard to case.
\<close>

definition fold_case :: "code_unit \<Rightarrow> code_unit" where
  "fold_case c = (if 0x41 \<le> c \<and> c \<le> 0x5A then c + 0x20 else c)"

fun like :: "jsstring \<Rightarrow> jsstring \<Rightarrow> bool" where
  "like [] s = (s = [])"
| "like (p # ps) [] = (p = 0x25 \<and> like ps [])"
| "like (p # ps) (c # cs) =
     (if p = 0x25 then like ps (c # cs) \<or> like (p # ps) cs
      else (p = 0x5F \<or> fold_case p = fold_case c) \<and> like ps cs)"

text \<open>A \<open>NULL\<close> description makes its \<open>LIKE\<close> unknown, which selects nothing.\<close>

fun holds :: "todos_row \<Rightarrow> condition \<Rightarrow> bool" where
  "holds r (IdEq n) = (Num (of_int (col_id r)) = n)"
| "holds r (CompletedEq b) = (col_completed r = b)"
| "holds r (PriorityEq p) = (col_priority r = p)"
| "holds r (TitleOrDescriptionLike p) =
     (like p (col_title r) \<or>
      (case col_description r of None \<Rightarrow> False | Some d \<Rightarrow> like p d))"

definition where_and :: "condition list \<Rightarrow> todos_row list \<Rightarrow> todos_row list" where
  "where_and conds rs = filter (\<lambda>r. list_all (holds r) conds) rs"

text \<open>
  \<open>ORDER BY\<close> one column. Text compares unit by unit; the priority column is text, so
  its order is the alphabetical one of \<open>high\<close>, \<open>low\<close>, \<open>medium\<close>. Rows with equal
  keys keep their rowid order.
\<close>

fun text_le :: "jsstring \<Rightarrow> jsstring \<Rightarrow> bool" where
  "text_le [] t = True"
| "text_le (a # s) [] = False"
| "text_le (a # s) (b # t) = (a < b \<or> (a = b \<and> text_le s t))"

fun priority_rank :: "priority \<Rightarrow> nat" where
  "priority_rank High = 0"
| "priority_rank Low = 1"
| "priority_rank Medium = 2"

fun column_le :: "sort_field \<Rightarrow> todos_row \<Rightarrow> todos_row \<Rightarrow> bool" where
  "column_le CreatedAt a b = (col_createdAt a \<le> col_createdAt b)"
| "column_le UpdatedAt a b = (col_updatedAt a \<le> col_updatedAt b)"
| "column_le Title a b = text_le (col_title a) (col_title b)"
| "column_le Priority a b = (priority_rank (col_priority a) \<le> priority_rank (col_priority b))"

definition precedes :: "TodoSort \<Rightarrow> todos_row \<Rightarrow> todos_row \<Rightarrow> bool" where
  "precedes s a b =
     (case order s of Asc \<Rightarrow> column_le (field s) a b | Desc \<Rightarrow> column_le (field s) b a)"

fun insert_sorted :: "TodoSort \<Rightarrow> todos_row \<Rightarrow> todos_row list \<Rightarrow> todos_row list" where
  "insert_sorted s r [] = [r]"
| "insert_sorted s r (x # xs) =
     (if precedes s x r then x # insert_sorted s r xs else r # x # xs)"

definition order_by :: "TodoSort option \<Rightarrow> todos_row list \<Rightarrow> todos_row list" where
  "order_by s rs = (case s of None \<Rightarrow> rs | Some k \<Rightarrow> foldl (\<lambda>acc r. insert_sorted k r acc) [] rs)"

text \<open>\<open>LIMIT\<close> and \<open>OFFSET\<close>: a negative limit is no limit, a negative offset is none.\<close>

definition limit_offset :: "int option \<Rightarrow> int option \<Rightarrow> 'a list \<Rightarrow> 'a list" where
  "limit_offset l off rs =
     (let skipped = (case off of None \<Rightarrow> rs | Some k \<Rightarrow> drop (nat k) rs)
      in case l of None \<Rightarrow> skipped
         | Some n \<Rightarrow> if n < 0 then skipped else take (nat n) skipped)"

text \<open>
  The five kinds of statement. Each returns \<open>None\<close> when the engine raises, and the
  handle with the statement recorded.
\<close>

definition select_from_todos ::
  "condition list \<Rightarrow> TodoSort option \<Rightarrow> int option \<Rightarrow> int option \<Rightarrow> database
     \<Rightarrow> Todo list option \<times> database" where
  "select_from_todos conds s l off db =
     (case issue (Select conds s l off) db of
        (False, db') \<Rightarrow> (None, db')
      | (True, db') \<Rightarrow>
          (Some (map fromRow (limit_offset l off (order_by s (where_and conds (rows db'))))), db'))"

definition select_count :: "condition list \<Rightarrow> database \<Rightarrow> nat list option \<times> database" where
  "select_count conds db =
     (case issue (SelectCount conds) db of
        (False, db') \<Rightarrow> (None, db')
      | (True, db') \<Rightarrow> (Some [length (where_and conds (rows db'))], db'))"

definition next_rowid :: "database \<Rightarrow> int" where
  "next_rowid db = foldl max (sequence db) (map col_id (rows db)) + 1"

definition insert_into_todos ::
  "jsstring \<Rightarrow> jsstring option \<Rightarrow> priority \<Rightarrow> bool \<Rightarrow> Date \<Rightarrow> Date \<Rightarrow> database
     \<Rightarrow> Todo list option \<times> database" where
  "insert_into_todos t d p c created updated db =
     (case issue (Insert t d p c created updated) db of
        (False, db') \<Rightarrow> (None, db')
      | (True, db') \<Rightarrow>
          (let r = \<lparr>col_id = next_rowid db', col_title = t, col_description = d,
                    col_completed = c, col_priority = p,
                    col_createdAt = mapToDriverValue created,
                    col_updatedAt = mapToDriverValue updated\<rparr>
           in (Some [fromRow r], db'\<lparr>rows := rows db' @ [r], sequence := col_id r\<rparr>)))"

text \<open>
  \<open>set\<close> skips every key whose value is \<open>undefined\<close>: such a column keeps its value.
\<close>

definition apply_set :: "UpdateTodoData \<Rightarrow> Date \<Rightarrow> todos_row \<Rightarrow> todos_row" where
  "apply_set u now r =
     r\<lparr>col_title := (case u_title u of None \<Rightarrow> col_title r | Some t \<Rightarrow> t),
       col_description := (case u_description u of None \<Rightarrow> col_description r | Some d \<Rightarrow> Some d),
       col_completed := (case u_completed u of None \<Rightarrow> col_completed r | Some c \<Rightarrow> c),
       col_priority := (case u_priority u of None \<Rightarrow> col_priority r | Some p \<Rightarrow> p),
       col_updatedAt := mapToDriverValue now\<rparr>"

text \<open>
  An update rewrites the rows with the given id and answers with the rows it changed, as
  they are afterwards.
\<close>

definition set_where_id ::
  "UpdateTodoData \<Rightarrow> Date \<Rightarrow> number \<Rightarrow> todos_row list \<Rightarrow> todos_row list" where
  "set_where_id u now i rs = map (\<lambda>r. if holds r (IdEq i) then apply_set u now r else r) rs"

definition update_todos ::
  "UpdateTodoData \<Rightarrow> Date \<Rightarrow> number \<Rightarrow> database \<Rightarrow> Todo list option \<times> database" where
  "update_todos u now i db =
     (case issue (Update u now i) db of
        (False, db') \<Rightarrow> (None, db')
      | (True, db') \<Rightarrow>
          (let rs = set_where_id u now i (rows db')
           in (Some (map fromRow (filter (\<lambda>r. holds r (IdEq i)) rs)), db'\<lparr>rows := rs\<rparr>)))"

text \<open>A delete answers with the number of rows it removed.\<close>

definition delete_from_todos :: "number \<Rightarrow> database \<Rightarrow> nat option \<times> database" where
  "delete_from_todos i db =
     (case issue (Delete i) db of
        (False, db') \<Rightarrow> (None, db')
      | (True, db') \<Rightarrow>
          (Some (length (filter (\<lambda>r. holds r (IdEq i)) (rows db'))),
           db'\<lparr>rows := filter (\<lambda>r. \<not> holds r (IdEq i)) (rows db')\<rparr>))"

section \<open>The data-access layer (todos.ts)\<close>

text \<open>
  Every operation takes the database handle and returns its outcome (\<open>Inl\<close> the error
  thrown, \<open>Inr\<close> the value returned) with the handle afterwards. The clock read by
  \<open>new Date()\<close> is the argument \<open>now\<close>; \<open>toLowerCase\<close> is the case mapping of the
  JavaScript runtime.
\<close>

definition invalid_id :: "number \<Rightarrow> bool" where
  "invalid_id i = (\<not> isInteger i \<or> le_zero i)"

definition getAllTodos ::
  "(jsstring \<Rightarrow> jsstring) \<Rightarrow> database \<Rightarrow> TodoFilter option \<Rightarrow> TodoSort option
     \<Rightarrow> TodoPagination option \<Rightarrow> (error + Todo list) \<times> database" where
  "getAllTodos toLowerCase db todoFilter todoSort pagination =
     (let sortSpec = (case todoSort of None \<Rightarrow> \<lparr>field = CreatedAt, order = Desc\<rparr>
                      | Some s \<Rightarrow> s);
          conditions =
            (case todoFilter of None \<Rightarrow> []
             | Some f \<Rightarrow>
                 (case f_completed f of None \<Rightarrow> [] | Some c \<Rightarrow> [CompletedEq c]) @
                 (case f_priority f of None \<Rightarrow> [] | Some p \<Rightarrow> [PriorityEq p]) @
                 (case f_search f of None \<Rightarrow> []
                  | Some s \<Rightarrow>
                      if s = [] then []
                      else [TitleOrDescriptionLike ([0x25] @ toLowerCase s @ [0x25])]))
      in case select_from_todos conditions (Some sortSpec)
                (map_option limit pagination) (map_option offset pagination) db of
           (None, db') \<Rightarrow> (Inl (DatabaseError (Text ''Failed to fetch todos'')), db')
         | (Some result, db') \<Rightarrow> (Inr result, db'))"

definition getTodoById :: "database \<Rightarrow> number \<Rightarrow> (error + Todo option) \<times> database" where
  "getTodoById db i =
     (if invalid_id i
      then (Inl (ValidationError (Text ''Invalid todo ID'') (Some ''id'')), db)
      else case select_from_todos [IdEq i] None (Some 1) None db of
             (None, db') \<Rightarrow>
               (Inl (DatabaseError (TextId ''Failed to fetch todo with id '' i)), db')
           | (Some result, db') \<Rightarrow>
               (Inr (case result of [] \<Rightarrow> None | t # _ \<Rightarrow> Some t), db'))"

text \<open>
  The checks of \<open>createTodo\<close>, in the order of the source; \<open>None\<close> when all pass.
  \<open>!data.title\<close> holds of a missing and of an empty title, and
  \<open>data.description && \<dots>\<close> skips a missing and an empty description. The length of
  the description is taken as it is given, that of the title after \<open>trim()\<close>. The
  membership test on the priority is the one of the source; a value of the declared type
  passes it.
\<close>

definition create_validation :: "CreateTodoData \<Rightarrow> error option" where
  "create_validation d =
     (case c_title d of
        None \<Rightarrow> Some (ValidationError (Text ''Title is required'') (Some ''title''))
      | Some t \<Rightarrow>
          if t = [] \<or> length (trim t) = 0
          then Some (ValidationError (Text ''Title is required'') (Some ''title''))
          else if length (trim t) > 255
          then Some (ValidationError (Text ''Title must be 255 characters or less'')
                       (Some ''title''))
          else if (case c_description d of None \<Rightarrow> False
                   | Some ds \<Rightarrow> ds \<noteq> [] \<and> length ds > 1000)
          then Some (ValidationError (Text ''Description must be 1000 characters or less'')
                       (Some ''description''))
          else if (case c_priority d of None \<Rightarrow> False
                   | Some p \<Rightarrow> p \<notin> set [Low, Medium, High])
          then Some (ValidationError (Text ''Priority must be low, medium, or high'')
                       (Some ''priority''))
          else None)"

text \<open>\<open>s?.trim() || null\<close>: an absent string and one that trims to nothing give null.\<close>

definition trim_or_null :: "jsstring option \<Rightarrow> jsstring option" where
  "trim_or_null s =
     (case s of None \<Rightarrow> None | Some d \<Rightarrow> if trim d = [] then None else Some (trim d))"

definition createTodo :: "Date \<Rightarrow> database \<Rightarrow> CreateTodoData \<Rightarrow> (error + Todo) \<times> database" where
  "createTodo now db d =
     (case create_validation d of
        Some e \<Rightarrow> (Inl e, db)
      | None \<Rightarrow>
          (case insert_into_todos (trim (case c_title d of None \<Rightarrow> [] | Some t \<Rightarrow> t))
                  (trim_or_null (c_description d))
                  (case c_priority d of None \<Rightarrow> Medium | Some p \<Rightarrow> p)
                  False now now db of
             (None, db') \<Rightarrow> (Inl (DatabaseError (Text ''Failed to create todo'')), db')
           | (Some [], db') \<Rightarrow> (Inl (DatabaseError (Text ''Failed to create todo'')), db')
           | (Some (t # _), db') \<Rightarrow> (Inr t, db')))"

text \<open>The checks of \<open>updateTodo\<close>, the id first.\<close>

definition update_validation :: "number \<Rightarrow> UpdateTodoData \<Rightarrow> error option" where
  "update_validation i d =
     (if invalid_id i
      then Some (ValidationError (Text ''Invalid todo ID'') (Some ''id''))
      else if (case u_title d of None \<Rightarrow> False | Some t \<Rightarrow> t = [] \<or> length (trim t) = 0)
      then Some (ValidationError (Text ''Title cannot be empty'') (Some ''title''))
      else if (case u_title d of None \<Rightarrow> False | Some t \<Rightarrow> length (trim t) > 255)
      then Some (ValidationError (Text ''Title must be 255 characters or less'')
                   (Some ''title''))
      else if (case u_description d of None \<Rightarrow> False
               | Some ds \<Rightarrow> ds \<noteq> [] \<and> length ds > 1000)
      then Some (ValidationError (Text ''Description must be 1000 characters or less'')
                   (Some ''description''))
      else if (case u_priority d of None \<Rightarrow> False | Some p \<Rightarrow> p \<notin> set [Low, Medium, High])
      then Some (ValidationError (Text ''Priority must be low, medium, or high'')
                   (Some ''priority''))
      else None)"

text \<open>
  The object \<open>updateTodo\<close> hands to \<open>set\<close>: the title trimmed, the description
  \<open>trim() || undefined\<close>, the other fields as given.
\<close>

definition updateData :: "UpdateTodoData \<Rightarrow> UpdateTodoData" where
  "updateData d =
     d\<lparr>u_title := map_option trim (u_title d),
       u_description :=
         (case u_description d of None \<Rightarrow> None
          | Some ds \<Rightarrow> if trim ds = [] then None else Some (trim ds))\<rparr>"

definition updateTodo ::
  "Date \<Rightarrow> database \<Rightarrow> number \<Rightarrow> UpdateTodoData \<Rightarrow> (error + Todo option) \<times> database" where
  "updateTodo now db i d =
     (case update_validation i d of
        Some e \<Rightarrow> (Inl e, db)
      | None \<Rightarrow>
          (case update_todos (updateData d) now i db of
             (None, db') \<Rightarrow>
               (Inl (DatabaseError (TextId ''Failed to update todo with id '' i)), db')
           | (Some result, db') \<Rightarrow>
               (Inr (case result of [] \<Rightarrow> None | t # _ \<Rightarrow> Some t), db')))"

definition deleteTodo :: "database \<Rightarrow> number \<Rightarrow> (error + bool) \<times> database" where
  "deleteTodo db i =
     (if invalid_id i
      then (Inl (ValidationError (Text ''Invalid todo ID'') (Some ''id'')), db)
      else case delete_from_todos i db of
             (None, db') \<Rightarrow>
               (Inl (DatabaseError (TextId ''Failed to delete todo with id '' i)), db')
           | (Some changes, db') \<Rightarrow> (Inr (changes > 0), db'))"

text \<open>
  The \<open>catch\<close> of \<open>toggleTodoComplete\<close>: a validation error is thrown again as it is,
  anything else is wrapped.
\<close>

definition toggle_catch :: "number \<Rightarrow> error \<Rightarrow> error" where
  "toggle_catch i e =
     (case e of ValidationError m f \<Rightarrow> ValidationError m f
      | DatabaseError m \<Rightarrow>
          DatabaseError (TextId ''Failed to toggle todo completion for id '' i))"

definition toggleTodoComplete ::
  "Date \<Rightarrow> database \<Rightarrow> number \<Rightarrow> (error + Todo option) \<times> database" where
  "toggleTodoComplete now db i =
     (case getTodoById db i of
        (Inl e, db') \<Rightarrow> (Inl (toggle_catch i e), db')
      | (Inr None, db') \<Rightarrow> (Inr None, db')
      | (Inr (Some todo), db') \<Rightarrow>
          (case updateTodo now db' i
                  \<lparr>u_title = None, u_description = None,
                   u_completed = Some (\<not> completed todo), u_priority = None\<rparr> of
             (Inl e, db'') \<Rightarrow> (Inl (toggle_catch i e), db'')
           | (Inr r, db'') \<Rightarrow> (Inr r, db'')))"

text \<open>
  \<open>getTodoStats\<close> starts its six counts together; \<open>Promise.all\<close> rejects when any of
  them does. \<open>count_of\<close> is \<open>result[0]?.count ?? 0\<close>.
\<close>

definition count_of :: "nat list \<Rightarrow> nat" where
  "count_of result = (case result of [] \<Rightarrow> 0 | n # _ \<Rightarrow> n)"

definition getTodoStats :: "database \<Rightarrow> (error + TodoStats) \<times> database" where
  "getTodoStats db =
     (case select_count [] db of (totalResult, db1) \<Rightarrow>
      case select_count [CompletedEq True] db1 of (completedResult, db2) \<Rightarrow>
      case select_count [CompletedEq False] db2 of (pendingResult, db3) \<Rightarrow>
      case select_count [PriorityEq Low] db3 of (lowResult, db4) \<Rightarrow>
      case select_count [PriorityEq Medium] db4 of (mediumResult, db5) \<Rightarrow>
      case select_count [PriorityEq High] db5 of (highResult, db6) \<Rightarrow>
        (case (totalResult, completedResult, pendingResult,
               lowResult, mediumResult, highResult) of
           (Some t, Some c, Some p, Some l, Some m, Some h) \<Rightarrow>
             (Inr \<lparr>stat_total = count_of t, stat_completed = count_of c,
                   stat_pending = count_of p,
                   byPriority = \<lparr>low = count_of l, medium = count_of m, high = count_of h\<rparr>\<rparr>,
              db6)
         | _ \<Rightarrow> (Inl (DatabaseError (Text ''Failed to fetch todo statistics'')), db6)))"

definition searchTodos ::
  "(jsstring \<Rightarrow> jsstring) \<Rightarrow> database \<Rightarrow> jsstring \<Rightarrow> (error + Todo list) \<times> database" where
  "searchTodos toLowerCase db searchTerm =
     (if trim searchTerm = [] then (Inr [], db)
      else case select_from_todos
                  [TitleOrDescriptionLike ([0x25] @ toLowerCase searchTerm @ [0x25])]
                  (Some \<lparr>field = CreatedAt, order = Desc\<rparr>) None None db of
             (None, db') \<Rightarrow> (Inl (DatabaseError (Text ''Failed to search todos'')), db')
           | (Some result, db') \<Rightarrow> (Inr result, db'))"

text \<open>
  \<open>bulkUpdateTodos\<close>. The inner loop sends one update for each id of a batch and counts
  those that changed a row; the outer loop walks the ids in slices of \<open>batchSize\<close>. A
  statement the engine refuses ends both loops. The batches are not visible in what the
  function returns, so the outer loop keeps a record of them: \<open>taken\<close> lists the values
  \<open>batch\<close> has had so far, and is the only thing added to the source.
\<close>

definition batchSize :: nat where
  "batchSize = 50"

definition slice :: "'a list \<Rightarrow> nat \<Rightarrow> nat \<Rightarrow> 'a list" where
  "slice xs i j = take (j - i) (drop i xs)"

fun bulk_batch ::
  "UpdateTodoData \<Rightarrow> Date \<Rightarrow> number list \<Rightarrow> nat \<Rightarrow> database \<Rightarrow> nat option \<times> database" where
  "bulk_batch u now [] count db = (Some count, db)"
| "bulk_batch u now (i # batch) count db =
     (case update_todos u now i db of
        (None, db') \<Rightarrow> (None, db')
      | (Some result, db') \<Rightarrow>
          bulk_batch u now batch (if length result > 0 then count + 1 else count) db')"

function bulk_batches ::
  "UpdateTodoData \<Rightarrow> Date \<Rightarrow> number list \<Rightarrow> nat \<Rightarrow> nat \<Rightarrow> number list list \<Rightarrow> database
     \<Rightarrow> nat option \<times> database \<times> number list list" where
  "bulk_batches u now ids i count taken db =
     (if i < length ids
      then case bulk_batch u now (slice ids i (i + batchSize)) count db of
             (None, db') \<Rightarrow> (None, db', taken @ [slice ids i (i + batchSize)])
           | (Some count', db') \<Rightarrow>
               bulk_batches u now ids (i + batchSize) count'
                 (taken @ [slice ids i (i + batchSize)]) db'
      else (Some count, db, taken))"
  by pat_completeness auto
termination
  by (relation "measure (\<lambda>(u, now, ids, i, count, taken, db). length ids - i)")
     (auto simp: batchSize_def)

declare bulk_batches.simps [simp del]

definition bulkUpdateTodos ::
  "Date \<Rightarrow> database \<Rightarrow> number list \<Rightarrow> UpdateTodoData \<Rightarrow> (error + nat) \<times> database" where
  "bulkUpdateTodos now db ids updates =
     (if length ids = 0 then (Inr 0, db)
      else case find invalid_id ids of
             Some i \<Rightarrow> (Inl (ValidationError (TextId ''Invalid todo ID: '' i) (Some ''id'')), db)
           | None \<Rightarrow>
               (case bulk_batches updates now ids 0 0 [] db of
                  (None, db', taken) \<Rightarrow>
                    (Inl (DatabaseError (Text ''Failed to bulk update todos'')), db')
                | (Some count, db', taken) \<Rightarrow> (Inr count, db')))"

section \<open>Notions used to state the properties\<close>

text \<open>The record stored under an id: the first row the engine finds for it.\<close>

definition row_with_id :: "database \<Rightarrow> number \<Rightarrow> todos_row option" where
  "row_with_id db i = find (\<lambda>r. holds r (IdEq i)) (rows db)"





section \<open>Example data\<close>

text \<open>A table of two rows on an engine that answers every statement.\<close>

definition example_db :: database where
  "example_db =
     \<lparr>rows = [\<lparr>col_id = 1, col_title = [0x61], col_description = Some [0x62],
                col_completed = False, col_priority = High,
                col_createdAt = 1700000000, col_updatedAt = 1700000000\<rparr>,
              \<lparr>col_id = 2, col_title = [0x63], col_description = None,
                col_completed = True, col_priority = Medium,
                col_createdAt = 1700000100, col_updatedAt = 1700000200\<rparr>],
      sequence = 2, sent = [], faults = []\<rparr>"

section \<open>Validation of the id\<close>

lemma invalid_id_iff: "invalid_id i \<longleftrightarrow> (\<nexists>n::int. 0 < n \<and> i = Num (of_int n))"
proof (cases i)
  case (Num q)
  show ?thesis
  proof
    assume inv: "invalid_id i"
    show "\<nexists>n::int. 0 < n \<and> i = Num (of_int n)"
    proof
      assume "\<exists>n::int. 0 < n \<and> i = Num (of_int n)"
      then obtain n :: int where n: "0 < n" "i = Num (of_int n)" by blast
      with inv show False by (simp add: invalid_id_def isInteger_def le_zero_def)
    qed
  next
    assume nex: "\<nexists>n::int. 0 < n \<and> i = Num (of_int n)"
    show "invalid_id i"
    proof (rule ccontr)
      assume "\<not> invalid_id i"
      with Num have q: "of_int \<lfloor>q\<rfloor> = q" "0 < q"
        by (simp_all add: invalid_id_def isInteger_def le_zero_def)
      then have "0 < \<lfloor>q\<rfloor>" by linarith
      with q Num nex show False by metis
    qed
  qed
qed (simp_all add: invalid_id_def isInteger_def le_zero_def)

lemma getTodoById_invalid:
  "invalid_id i \<Longrightarrow>
     getTodoById db i = (Inl (ValidationError (Text ''Invalid todo ID'') (Some ''id'')), db)"
  by (simp add: getTodoById_def)

lemma updateTodo_invalid:
  "invalid_id i \<Longrightarrow>
     updateTodo now db i d = (Inl (ValidationError (Text ''Invalid todo ID'') (Some ''id'')), db)"
  by (simp add: updateTodo_def update_validation_def)

lemma deleteTodo_invalid:
  "invalid_id i \<Longrightarrow>
     deleteTodo db i = (Inl (ValidationError (Text ''Invalid todo ID'') (Some ''id'')), db)"
  by (simp add: deleteTodo_def)

lemma toggleTodoComplete_invalid:
  "invalid_id i \<Longrightarrow>
     toggleTodoComplete now db i =
       (Inl (ValidationError (Text ''Invalid todo ID'') (Some ''id'')), db)"
  by (simp add: toggleTodoComplete_def getTodoById_invalid toggle_catch_def)

lemma bulkUpdateTodos_invalid:
  assumes "i \<in> set ids" and "invalid_id i"
  shows "\<exists>j. j \<in> set ids \<and> invalid_id j \<and>
           bulkUpdateTodos now db ids u =
             (Inl (ValidationError (TextId ''Invalid todo ID: '' j) (Some ''id'')), db)"
proof -
  from assms have "find invalid_id ids \<noteq> None"
    by (auto simp: find_None_iff)
  then obtain j where j: "find invalid_id ids = Some j" by blast
  then have "j \<in> set ids" "invalid_id j"
    by (auto simp: find_Some_iff)
  moreover from assms(1) have "length ids \<noteq> 0" by auto
  ultimately show ?thesis using j
    by (auto simp: bulkUpdateTodos_def)
qed

text \<open>
  Claim C1. An id that is not a positive integer (zero, negative, non-integral, NaN or
  infinite) makes \<open>getTodoById\<close>, \<open>updateTodo\<close>, \<open>deleteTodo\<close> and
  \<open>toggleTodoComplete\<close> throw the validation error for field \<open>id\<close>, and so does
  \<open>bulkUpdateTodos\<close> when such an id is in its list (naming the first one). The handle
  comes back as it was: no statement has been sent and no row has changed.
\<close>

theorem invalid_id_rejected_before_storage:
  assumes "\<nexists>n::int. 0 < n \<and> i = Num (of_int n)"
  shows "getTodoById db i = (Inl (ValidationError (Text ''Invalid todo ID'') (Some ''id'')), db)
       \<and> updateTodo now db i d =
           (Inl (ValidationError (Text ''Invalid todo ID'') (Some ''id'')), db)
       \<and> deleteTodo db i = (Inl (ValidationError (Text ''Invalid todo ID'') (Some ''id'')), db)
       \<and> toggleTodoComplete now db i =
           (Inl (ValidationError (Text ''Invalid todo ID'') (Some ''id'')), db)
       \<and> (i \<in> set ids \<longrightarrow>
            (\<exists>j. j \<in> set ids \<and> (\<nexists>n::int. 0 < n \<and> j = Num (of_int n)) \<and>
               bulkUpdateTodos now db ids u =
                 (Inl (ValidationError (TextId ''Invalid todo ID: '' j) (Some ''id'')), db)))"
proof -
  from assms have inv: "invalid_id i" by (simp add: invalid_id_iff)
  have "i \<in> set ids \<longrightarrow>
            (\<exists>j. j \<in> set ids \<and> (\<nexists>n::int. 0 < n \<and> j = Num (of_int n)) \<and>
               bulkUpdateTodos now db ids u =
                 (Inl (ValidationError (TextId ''Invalid todo ID: '' j) (Some ''id'')), db))"
    using bulkUpdateTodos_invalid [OF _ inv, of ids now db u]
    by (simp only: invalid_id_iff) blast
  with inv show ?thesis
    by (simp only: getTodoById_invalid updateTodo_invalid deleteTodo_invalid
        toggleTodoComplete_invalid simp_thms)
qed

text \<open>The id \<open>1.5\<close> of the test-suite, alone and inside a list after a valid id.\<close>

lemma three_halves_not_positive_integer:
  "\<nexists>n::int. 0 < n \<and> Num (3 / 2) = Num (of_int n)"
proof
  assume "\<exists>n::int. 0 < n \<and> Num (3 / 2) = Num (of_int n)"
  then obtain n :: int where "(3::rat) / 2 = of_int n" by auto
  then have "(of_int (2 * n) :: rat) = of_int 3" by simp
  then have "2 * n = 3" by (simp only: of_int_eq_iff)
  then show False by presburger
qed

theorem invalid_id_rejected_before_storage_witness:
  "(\<nexists>n::int. 0 < n \<and> Num (3 / 2) = Num (of_int n))
   \<and> getTodoById example_db (Num (3 / 2)) =
       (Inl (ValidationError (Text ''Invalid todo ID'') (Some ''id'')), example_db)
   \<and> deleteTodo example_db (Num (3 / 2)) =
       (Inl (ValidationError (Text ''Invalid todo ID'') (Some ''id'')), example_db)
   \<and> bulkUpdateTodos 0 example_db [Num 1, Num (3 / 2)]
         \<lparr>u_title = None, u_description = None, u_completed = Some True,
          u_priority = None\<rparr> =
       (Inl (ValidationError (TextId ''Invalid todo ID: '' (Num (3 / 2))) (Some ''id'')),
        example_db)"
proof -
  let ?u = "\<lparr>u_title = None, u_description = None, u_completed = Some True,
          u_priority = None\<rparr>"
  note h = three_halves_not_positive_integer
  note r = invalid_id_rejected_before_storage [OF h,
        where db = example_db and ids = "[Num 1, Num (3 / 2)]" and now = 0
          and u = ?u and d = ?u]
  from r obtain j where j: "j \<in> set [Num 1, Num (3 / 2)]"
      "\<nexists>n::int. 0 < n \<and> j = Num (of_int n)"
      "bulkUpdateTodos 0 example_db [Num 1, Num (3 / 2)] ?u =
         (Inl (ValidationError (TextId ''Invalid todo ID: '' j) (Some ''id'')), example_db)"
    by auto
  have "0 < (1::int) \<and> Num 1 = Num (of_int 1)" by simp
  with j(2) have "j \<noteq> Num 1" by blast
  with j(1) have "j = Num (3 / 2)" by simp
  with j(3) h r show ?thesis by simp
qed

section \<open>Creating a record\<close>

lemma trim_Nil: "trim [] = []"
  by (simp add: trim_def)

text \<open>A string trims to nothing exactly when it consists of white space only.\<close>

lemma trim_blank: "trim s = [] \<longleftrightarrow> list_all isWhiteSpace s"
proof
  assume "list_all isWhiteSpace s"
  then have "dropWhile isWhiteSpace s = []"
    by (simp only: list_all_iff dropWhile_eq_Nil_conv)
  then have "trim s = rev (dropWhile isWhiteSpace (rev []))"
    by (simp only: trim_def)
  then show "trim s = []"
    by simp
next
  assume "trim s = []"
  then have all: "\<forall>c\<in>set (dropWhile isWhiteSpace s). isWhiteSpace c"
    by (simp add: trim_def dropWhile_eq_Nil_conv)
  have "dropWhile isWhiteSpace s = []"
  proof (cases "dropWhile isWhiteSpace s")
    case Nil
    then show ?thesis .
  next
    case (Cons c cs)
    then have "\<not> isWhiteSpace c"
      by (metis hd_dropWhile list.discI list.sel(1))
    moreover from Cons all have "isWhiteSpace c"
      by simp
    ultimately show ?thesis by contradiction
  qed
  then show "list_all isWhiteSpace s"
    by (simp only: list_all_iff dropWhile_eq_Nil_conv)
qed

lemma trim_replicate: "\<not> isWhiteSpace c \<Longrightarrow> trim (replicate n c) = replicate n c"
  by (simp add: trim_def dropWhile_replicate)

lemma letter_a_not_space: "\<not> isWhiteSpace 0x61"
  by (simp add: isWhiteSpace_def)

lemma space_is_space: "isWhiteSpace 0x20"
  by (simp add: isWhiteSpace_def)

lemma create_validation_title:
  "(\<exists>m. create_validation d = Some (ValidationError m (Some ''title'')))
     \<longleftrightarrow> (c_title d = None
          \<or> (\<exists>t. c_title d = Some t \<and> (list_all isWhiteSpace t \<or> 255 < length (trim t))))"
  by (auto simp: create_validation_def trim_blank [symmetric] trim_Nil
      split: option.splits if_splits)

text \<open>
  Claim C6. \<open>createTodo\<close> throws a validation error naming field \<open>title\<close> exactly
  when the title is missing, or consists of white space only (the empty title included),
  or is longer than 255 code units after trimming.
\<close>

theorem createTodo_title_validation:
  "(\<exists>m. fst (createTodo now db d) = Inl (ValidationError m (Some ''title'')))
     \<longleftrightarrow> (c_title d = None
          \<or> (\<exists>t. c_title d = Some t \<and> (list_all isWhiteSpace t \<or> 255 < length (trim t))))"
proof (cases "create_validation d")
  case None
  then have "\<not> (\<exists>m. fst (createTodo now db d) = Inl (ValidationError m (Some ''title'')))"
    by (simp add: createTodo_def insert_into_todos_def issue_def Let_def
        split: prod.splits bool.splits)
  moreover from None
  have "\<not> (\<exists>m. create_validation d = Some (ValidationError m (Some ''title'')))"
    by simp
  ultimately show ?thesis
    by (simp only: create_validation_title)
next
  case (Some e)
  then have "fst (createTodo now db d) = Inl e"
    by (simp add: createTodo_def)
  with Some show ?thesis
    using create_validation_title [of d] by auto
qed

text \<open>Valid data sent to an engine that answers is stored.\<close>

lemma createTodo_succeeds:
  assumes "create_validation d = None" and "length (sent db) \<notin> set (faults db)"
  shows "\<exists>t db'. createTodo now db d = (Inr t, db')"
  using assms
  by (simp add: createTodo_def insert_into_todos_def issue_def Let_def)

text \<open>
  A title of 256 letters is refused for its title, one of 255 letters is not, and a title
  of two spaces is refused.
\<close>

theorem createTodo_title_validation_witness:
  "(\<exists>m. fst (createTodo 0 example_db
            \<lparr>c_title = Some (replicate 256 0x61), c_description = None, c_priority = None\<rparr>)
          = Inl (ValidationError m (Some ''title'')))
   \<and> \<not> (\<exists>m. fst (createTodo 0 example_db
            \<lparr>c_title = Some (replicate 255 0x61), c_description = None, c_priority = None\<rparr>)
          = Inl (ValidationError m (Some ''title'')))
   \<and> (\<exists>m. fst (createTodo 0 example_db
            \<lparr>c_title = Some [0x20, 0x20], c_description = None, c_priority = None\<rparr>)
          = Inl (ValidationError m (Some ''title'')))"
proof -
  have t256: "trim (replicate 256 0x61) = replicate 256 0x61"
    and t255: "trim (replicate 255 0x61) = replicate 255 0x61"
    by (simp_all only: trim_replicate [OF letter_a_not_space])
  have long: "\<not> list_all isWhiteSpace (replicate n 0x61)" if "0 < n" for n
    using that by (simp add: list_all_iff letter_a_not_space)
  show ?thesis
    using createTodo_title_validation [of 0 example_db
        "\<lparr>c_title = Some (replicate 256 0x61), c_description = None, c_priority = None\<rparr>"]
      createTodo_title_validation [of 0 example_db
        "\<lparr>c_title = Some (replicate 255 0x61), c_description = None, c_priority = None\<rparr>"]
      createTodo_title_validation [of 0 example_db
        "\<lparr>c_title = Some [0x20, 0x20], c_description = None, c_priority = None\<rparr>"]
    by (simp add: t256 t255 long space_is_space)
qed

text \<open>
  Claim C7. The record a successful \<open>createTodo\<close> returns has the trimmed title, the
  trimmed description (null when the description is absent or trims to nothing), the
  given priority or \<open>medium\<close>, \<open>completed = false\<close>, and the same value in
  \<open>createdAt\<close> and \<open>updatedAt\<close>: the clock reading, in the whole seconds the column
  keeps. It is the row appended to the table.
\<close>

theorem createTodo_result:
  assumes "createTodo now db d = (Inr t, db')"
  shows "(\<exists>s. c_title d = Some s \<and> title t = trim s)
       \<and> description t =
           (case c_description d of None \<Rightarrow> None
            | Some ds \<Rightarrow> if trim ds = [] then None else Some (trim ds))
       \<and> priority t = (case c_priority d of None \<Rightarrow> Medium | Some p \<Rightarrow> p)
       \<and> completed t = False
       \<and> createdAt t = updatedAt t
       \<and> createdAt t = 1000 * (now div 1000)
       \<and> (\<exists>r. rows db' = rows db @ [r] \<and> fromRow r = t)"
proof -
  from assms have valid: "create_validation d = None"
    by (cases "create_validation d") (simp_all add: createTodo_def)
  then obtain s where s: "c_title d = Some s"
    by (cases "c_title d") (simp_all add: create_validation_def)
  from assms valid have ok: "length (sent db) \<notin> set (faults db)"
    by (auto simp: createTodo_def insert_into_todos_def issue_def Let_def split: if_splits)
  define r where "r = \<lparr>col_id = next_rowid (db\<lparr>sent := sent db @
        [Insert (trim s) (trim_or_null (c_description d))
           (case c_priority d of None \<Rightarrow> Medium | Some p \<Rightarrow> p) False now now]\<rparr>),
      col_title = trim s, col_description = trim_or_null (c_description d),
      col_completed = False,
      col_priority = (case c_priority d of None \<Rightarrow> Medium | Some p \<Rightarrow> p),
      col_createdAt = mapToDriverValue now, col_updatedAt = mapToDriverValue now\<rparr>"
  from assms valid s ok have t: "t = fromRow r" and db': "rows db' = rows db @ [r]"
    by (auto simp: createTodo_def insert_into_todos_def issue_def Let_def r_def)
  show ?thesis
    using s db'
    by (simp add: t fromRow_def r_def trim_or_null_def mapToDriverValue_def
        mapFromDriverValue_def)
qed


text \<open>Creating \<open>{title: " a ", description: " "}\<close> at clock reading 1234567 ms.\<close>

theorem createTodo_result_witness:
  "\<exists>t db'. createTodo 1234567 example_db
       \<lparr>c_title = Some [0x20, 0x61, 0x20], c_description = Some [0x20], c_priority = None\<rparr>
       = (Inr t, db')
     \<and> title t = [0x61] \<and> description t = None \<and> priority t = Medium
     \<and> completed t = False \<and> createdAt t = 1234000 \<and> updatedAt t = 1234000
     \<and> todo_id t = 3"
proof -
  let ?d = "\<lparr>c_title = Some [0x20, 0x61, 0x20], c_description = Some [0x20],
             c_priority = None\<rparr>"
  have t1: "trim [0x20, 0x61, 0x20] = [0x61]" and t2: "trim [0x20] = []"
    by (simp_all add: trim_def space_is_space letter_a_not_space)
  have "create_validation ?d = None"
    by (simp add: create_validation_def t1)
  moreover have "length (sent example_db) \<notin> set (faults example_db)"
    by (simp add: example_db_def)
  ultimately obtain t db' where run: "createTodo 1234567 example_db ?d = (Inr t, db')"
    using createTodo_succeeds by blast
  have "todo_id t = 3"
    using run
    by (auto simp: createTodo_def create_validation_def insert_into_todos_def issue_def
        Let_def t1 t2 trim_or_null_def next_rowid_def fromRow_def example_db_def)
  with createTodo_result [OF run] run show ?thesis
    by (simp add: t1 t2)
qed

section \<open>Searching and listing\<close>

text \<open>
  Claim C9. A search term that is empty or consists of white space only makes
  \<open>searchTodos\<close> return the empty sequence with the handle as it was: no statement is
  sent to the engine.
\<close>

theorem searchTodos_blank:
  "list_all isWhiteSpace searchTerm \<Longrightarrow> searchTodos toLowerCase db searchTerm = (Inr [], db)"
  by (simp add: searchTodos_def trim_blank)

text \<open>The terms \<open>" \t"\<close> and \<open>""\<close>.\<close>

theorem searchTodos_blank_witness:
  "list_all isWhiteSpace [0x20, 0x09]
   \<and> searchTodos (\<lambda>s. s) example_db [0x20, 0x09] = (Inr [], example_db)
   \<and> list_all isWhiteSpace []
   \<and> searchTodos (\<lambda>s. s) example_db [] = (Inr [], example_db)"
proof -
  have b: "list_all isWhiteSpace [0x20, 0x09]"
    by (simp add: isWhiteSpace_def)
  have e: "list_all isWhiteSpace []"
    by simp
  show ?thesis
    using b e searchTodos_blank [OF b, of "\<lambda>s. s" example_db]
      searchTodos_blank [OF e, of "\<lambda>s. s" example_db]
    by simp
qed

text \<open>
  Claim C10. In \<open>getAllTodos\<close> a filter whose search is the empty string behaves in
  every respect (result, statement sent) as the same filter without a search, and a filter
  holding nothing but the empty search behaves as no filter; \<open>searchTodos\<close> on the empty
  term returns the empty sequence instead.
\<close>

theorem getAllTodos_empty_search:
  "getAllTodos toLowerCase db (Some (f\<lparr>f_search := Some []\<rparr>)) todoSort pagination =
     getAllTodos toLowerCase db (Some (f\<lparr>f_search := None\<rparr>)) todoSort pagination
   \<and> getAllTodos toLowerCase db
       (Some \<lparr>f_completed = None, f_priority = None, f_search = Some []\<rparr>) todoSort pagination =
     getAllTodos toLowerCase db None todoSort pagination
   \<and> searchTodos toLowerCase db [] = (Inr [], db)"
  by (simp add: getAllTodos_def searchTodos_def trim_Nil)

text \<open>
  On the example table the empty search of \<open>getAllTodos\<close> lists both rows, newest
  first, while \<open>searchTodos\<close> lists none.
\<close>

theorem getAllTodos_empty_search_witness:
  "getAllTodos (\<lambda>s. s) example_db
       (Some \<lparr>f_completed = None, f_priority = None, f_search = Some []\<rparr>) None None =
     getAllTodos (\<lambda>s. s) example_db None None None
   \<and> (\<exists>db'. getAllTodos (\<lambda>s. s) example_db None None None =
         (Inr (map fromRow (rev (rows example_db))), db'))
   \<and> searchTodos (\<lambda>s. s) example_db [] = (Inr [], example_db)"
proof -
  have "\<exists>db'. getAllTodos (\<lambda>s. s) example_db None None None =
         (Inr (map fromRow (rev (rows example_db))), db')"
    by (simp add: getAllTodos_def select_from_todos_def issue_def where_and_def order_by_def
        limit_offset_def precedes_def example_db_def)
  with getAllTodos_empty_search [of "\<lambda>s. s" example_db _ None None] show ?thesis
    by simp
qed

section \<open>Statistics\<close>

text \<open>A count leaves the table alone and answers with the number of rows selected.\<close>

lemma select_count_rows: "select_count conds db = (res, db') \<Longrightarrow> rows db' = rows db"
  by (auto simp: select_count_def issue_def split: bool.splits)

lemma select_count_Some:
  "select_count conds db = (Some res, db') \<Longrightarrow>
     count_of res = length (where_and conds (rows db))"
  by (auto simp: select_count_def issue_def count_of_def split: bool.splits)

text \<open>The two completion states and the three priorities each partition the table.\<close>

lemma count_by_completed:
  "length rs = length (where_and [CompletedEq True] rs) + length (where_and [CompletedEq False] rs)"
  by (induction rs) (auto simp: where_and_def)

lemma count_by_priority:
  "length rs = length (where_and [PriorityEq Low] rs) + length (where_and [PriorityEq Medium] rs)
     + length (where_and [PriorityEq High] rs)"
proof (induction rs)
  case Nil
  show ?case by (simp add: where_and_def)
next
  case (Cons r rs)
  then show ?case
    by (cases "col_priority r") (simp_all add: where_and_def)
qed

text \<open>
  Claim C8. The six counts of \<open>getTodoStats\<close> are taken over one table, no write
  coming between them, so the snapshot it returns satisfies
  \<open>total = completed + pending\<close> and \<open>total = low + medium + high\<close>; the total is the
  number of rows, and the table is as before.
\<close>

theorem getTodoStats_consistent:
  assumes "getTodoStats db = (Inr s, db')"
  shows "stat_total s = stat_completed s + stat_pending s
       \<and> stat_total s = low (byPriority s) + medium (byPriority s) + high (byPriority s)
       \<and> stat_total s = length (rows db)
       \<and> rows db' = rows db"
proof -
  obtain r1 db1 where q1: "select_count [] db = (r1, db1)" by fastforce
  obtain r2 db2 where q2: "select_count [CompletedEq True] db1 = (r2, db2)" by fastforce
  obtain r3 db3 where q3: "select_count [CompletedEq False] db2 = (r3, db3)" by fastforce
  obtain r4 db4 where q4: "select_count [PriorityEq Low] db3 = (r4, db4)" by fastforce
  obtain r5 db5 where q5: "select_count [PriorityEq Medium] db4 = (r5, db5)" by fastforce
  obtain r6 db6 where q6: "select_count [PriorityEq High] db5 = (r6, db6)" by fastforce
  note qs = q1 q2 q3 q4 q5 q6
  have rws: "rows db1 = rows db" "rows db2 = rows db" "rows db3 = rows db"
    "rows db4 = rows db" "rows db5 = rows db" "rows db6 = rows db"
    using qs [THEN select_count_rows] by simp_all
  from assms obtain t c p l m h where
    res: "r1 = Some t" "r2 = Some c" "r3 = Some p" "r4 = Some l" "r5 = Some m" "r6 = Some h"
    by (auto simp: getTodoStats_def qs split: option.splits)
  from assms have s: "s = \<lparr>stat_total = count_of t, stat_completed = count_of c,
      stat_pending = count_of p,
      byPriority = \<lparr>low = count_of l, medium = count_of m, high = count_of h\<rparr>\<rparr>"
    and db': "db' = db6"
    by (simp_all add: getTodoStats_def qs res)
  have cnt: "count_of t = length (where_and [] (rows db))"
    "count_of c = length (where_and [CompletedEq True] (rows db))"
    "count_of p = length (where_and [CompletedEq False] (rows db))"
    "count_of l = length (where_and [PriorityEq Low] (rows db))"
    "count_of m = length (where_and [PriorityEq Medium] (rows db))"
    "count_of h = length (where_and [PriorityEq High] (rows db))"
    using qs [unfolded res, THEN select_count_Some] by (simp_all add: rws)
  have all: "where_and [] (rows db) = rows db"
    by (simp add: where_and_def)
  show ?thesis
    using count_by_completed [of "rows db"] count_by_priority [of "rows db"]
    by (simp add: s db' cnt all rws)
qed

text \<open>The snapshot is returned whenever the engine answers the six counts.\<close>

lemma getTodoStats_succeeds:
  assumes "\<forall>k<6. length (sent db) + k \<notin> set (faults db)"
  shows "\<exists>s db'. getTodoStats db = (Inr s, db')"
proof -
  let ?n = "length (sent db)"
  have k: "?n \<notin> set (faults db)" "Suc ?n \<notin> set (faults db)"
    "Suc (Suc ?n) \<notin> set (faults db)" "Suc (Suc (Suc ?n)) \<notin> set (faults db)"
    "Suc (Suc (Suc (Suc ?n))) \<notin> set (faults db)"
    "Suc (Suc (Suc (Suc (Suc ?n)))) \<notin> set (faults db)"
    using assms [rule_format, of 0] assms [rule_format, of 1] assms [rule_format, of 2]
      assms [rule_format, of 3] assms [rule_format, of 4] assms [rule_format, of 5]
    by (simp_all add: eval_nat_numeral)
  show ?thesis
    using k by (simp add: getTodoStats_def select_count_def issue_def)
qed

text \<open>The snapshot of the example table.\<close>

theorem getTodoStats_consistent_witness:
  "\<exists>db'. getTodoStats example_db =
      (Inr \<lparr>stat_total = 2, stat_completed = 1, stat_pending = 1,
            byPriority = \<lparr>low = 0, medium = 1, high = 1\<rparr>\<rparr>, db')
    \<and> (2::nat) = 1 + 1 \<and> (2::nat) = 0 + 1 + 1"
proof -
  have run: "getTodoStats example_db =
      (Inr \<lparr>stat_total = 2, stat_completed = 1, stat_pending = 1,
            byPriority = \<lparr>low = 0, medium = 1, high = 1\<rparr>\<rparr>,
       example_db\<lparr>sent := [SelectCount [], SelectCount [CompletedEq True],
         SelectCount [CompletedEq False], SelectCount [PriorityEq Low],
         SelectCount [PriorityEq Medium], SelectCount [PriorityEq High]]\<rparr>)"
    by (simp add: getTodoStats_def select_count_def issue_def where_and_def count_of_def
        example_db_def)
  from getTodoStats_consistent [OF run] run show ?thesis
    by simp
qed

section \<open>The length check on the description\<close>

lemma trim_padded:
  "\<not> isWhiteSpace c \<Longrightarrow> trim (replicate (Suc n) c @ [0x20]) = replicate (Suc n) c"
  by (simp add: trim_def space_is_space dropWhile_append replicate_append_same)

text \<open>A validation error leaves either operation only from its validation.\<close>

lemma createTodo_validation_iff:
  "fst (createTodo now db d) = Inl (ValidationError m f)
     \<longleftrightarrow> create_validation d = Some (ValidationError m f)"
  by (cases "create_validation d")
     (simp_all add: createTodo_def insert_into_todos_def issue_def Let_def
        split: prod.splits bool.splits)

lemma updateTodo_validation_iff:
  "fst (updateTodo now db i d) = Inl (ValidationError m f)
     \<longleftrightarrow> update_validation i d = Some (ValidationError m f)"
  by (cases "update_validation i d")
     (simp_all add: updateTodo_def update_todos_def issue_def Let_def
        split: prod.splits bool.splits)

lemma create_validation_description:
  "(\<exists>m. create_validation d = Some (ValidationError m (Some ''description'')))
     \<longleftrightarrow> (\<exists>t. c_title d = Some t \<and> trim t \<noteq> [] \<and> length (trim t) \<le> 255)
          \<and> (\<exists>ds. c_description d = Some ds \<and> 1000 < length ds)"
  by (auto simp: create_validation_def trim_Nil split: option.splits if_splits)

lemma update_validation_description:
  "(\<exists>m. update_validation i d = Some (ValidationError m (Some ''description'')))
     \<longleftrightarrow> \<not> invalid_id i
          \<and> (\<forall>t. u_title d = Some t \<longrightarrow> trim t \<noteq> [] \<and> length (trim t) \<le> 255)
          \<and> (\<exists>ds. u_description d = Some ds \<and> 1000 < length ds)"
  by (auto simp: update_validation_def trim_Nil split: option.splits if_splits)

text \<open>
  Claim C4, as the code has it. \<open>createTodo\<close> and \<open>updateTodo\<close> throw a validation
  error naming field \<open>description\<close> exactly when the checks before it pass (the id of
  \<open>updateTodo\<close> is a positive integer, the title, where one is required or given, is
  neither blank nor longer than 255 after trimming) and the description as it was given,
  not trimmed, is longer than 1000 code units.
\<close>

theorem description_validation_untrimmed:
  "((\<exists>m. fst (createTodo now db c) = Inl (ValidationError m (Some ''description'')))
      \<longleftrightarrow> (\<exists>t. c_title c = Some t \<and> trim t \<noteq> [] \<and> length (trim t) \<le> 255)
           \<and> (\<exists>ds. c_description c = Some ds \<and> 1000 < length ds))
   \<and> ((\<exists>m. fst (updateTodo now db i u) = Inl (ValidationError m (Some ''description'')))
      \<longleftrightarrow> (\<exists>n::int. 0 < n \<and> i = Num (of_int n))
           \<and> (\<forall>t. u_title u = Some t \<longrightarrow> trim t \<noteq> [] \<and> length (trim t) \<le> 255)
           \<and> (\<exists>ds. u_description u = Some ds \<and> 1000 < length ds))"
  using create_validation_description [of c] update_validation_description [of i u]
  by (simp only: createTodo_validation_iff updateTodo_validation_iff invalid_id_iff not_not)

text \<open>
  A description of 1001 letters is refused and one of 1000 letters is not; in
  \<open>updateTodo\<close> a blank title is reported before the long description.
\<close>

theorem description_validation_untrimmed_witness:
  "(\<exists>m. fst (createTodo 0 example_db
          \<lparr>c_title = Some [0x61], c_description = Some (replicate 1001 0x61),
           c_priority = None\<rparr>) = Inl (ValidationError m (Some ''description'')))
   \<and> \<not> (\<exists>m. fst (createTodo 0 example_db
          \<lparr>c_title = Some [0x61], c_description = Some (replicate 1000 0x61),
           c_priority = None\<rparr>) = Inl (ValidationError m (Some ''description'')))
   \<and> (\<exists>m. fst (updateTodo 0 example_db (Num 1)
          \<lparr>u_title = None, u_description = Some (replicate 1001 0x61),
           u_completed = None, u_priority = None\<rparr>)
        = Inl (ValidationError m (Some ''description'')))
   \<and> \<not> (\<exists>m. fst (updateTodo 0 example_db (Num 1)
          \<lparr>u_title = Some [0x20], u_description = Some (replicate 1001 0x61),
           u_completed = None, u_priority = None\<rparr>)
        = Inl (ValidationError m (Some ''description'')))"
proof -
  have one: "trim [0x61] = [0x61]" and blank: "trim [0x20] = []"
    by (simp_all add: trim_def letter_a_not_space space_is_space)
  have pos: "\<exists>n::int. 0 < n \<and> Num 1 = Num (of_int n)"
    by (rule exI [of _ 1]) simp
  show ?thesis
    using pos
      description_validation_untrimmed [of 0 example_db
        "\<lparr>c_title = Some [0x61], c_description = Some (replicate 1001 0x61),
           c_priority = None\<rparr>" "Num 1"
        "\<lparr>u_title = None, u_description = Some (replicate 1001 0x61),
           u_completed = None, u_priority = None\<rparr>"]
      description_validation_untrimmed [of 0 example_db
        "\<lparr>c_title = Some [0x61], c_description = Some (replicate 1000 0x61),
           c_priority = None\<rparr>" "Num 1"
        "\<lparr>u_title = Some [0x20], u_description = Some (replicate 1001 0x61),
           u_completed = None, u_priority = None\<rparr>"]
    by (simp add: one blank)
qed

text \<open>
  Against claim C4 as it is worded: a description of 1000 letters followed by one space
  has 1000 code units after trimming, and both operations refuse it for its description.
\<close>

theorem description_validation_counterexample:
  "length (trim (replicate 1000 0x61 @ [0x20])) \<le> 1000
   \<and> fst (createTodo 0 example_db
          \<lparr>c_title = Some [0x61], c_description = Some (replicate 1000 0x61 @ [0x20]),
           c_priority = None\<rparr>)
       = Inl (ValidationError (Text ''Description must be 1000 characters or less'')
               (Some ''description''))
   \<and> fst (updateTodo 0 example_db (Num 1)
          \<lparr>u_title = None, u_description = Some (replicate 1000 0x61 @ [0x20]),
           u_completed = None, u_priority = None\<rparr>)
       = Inl (ValidationError (Text ''Description must be 1000 characters or less'')
               (Some ''description''))"
proof -
  have "trim (replicate (Suc 999) 0x61 @ [0x20]) = replicate (Suc 999) 0x61"
    by (rule trim_padded [OF letter_a_not_space])
  then have len: "length (trim (replicate 1000 0x61 @ [0x20])) \<le> 1000"
    by simp
  have one: "trim [0x61] = [0x61]"
    by (simp add: trim_def letter_a_not_space)
  have valid: "\<not> invalid_id (Num 1)"
    by (simp add: invalid_id_def isInteger_def le_zero_def)
  show ?thesis
    using len
    by (simp add: createTodo_def create_validation_def updateTodo_def update_validation_def
        one valid)
qed

section \<open>Updating a record\<close>

text \<open>An update keeps the id of every row, so it finds the rows it rewrote.\<close>

lemma find_set_where_id:
  "find (\<lambda>r. holds r (IdEq i)) (set_where_id u now i rs) =
     map_option (apply_set u now) (find (\<lambda>r. holds r (IdEq i)) rs)"
  by (induction rs) (simp_all add: set_where_id_def apply_set_def)

lemma find_as_filter: "find P xs = (case filter P xs of [] \<Rightarrow> None | x # _ \<Rightarrow> Some x)"
  by (induction xs) simp_all

text \<open>What the engine does with an update it answers.\<close>

lemma update_todos_Some:
  assumes "update_todos u now i db = (Some result, db')"
  shows "db' = db\<lparr>sent := sent db @ [Update u now i], rows := set_where_id u now i (rows db)\<rparr>"
    and "result = map fromRow (filter (\<lambda>r. holds r (IdEq i)) (set_where_id u now i (rows db)))"
    and "length (sent db) \<notin> set (faults db)"
  using assms
  by (auto simp: update_todos_def issue_def Let_def split: bool.splits)

lemma update_todos_answers:
  assumes "length (sent db) \<notin> set (faults db)"
  shows "update_todos u now i db =
     (Some (map fromRow (filter (\<lambda>r. holds r (IdEq i)) (set_where_id u now i (rows db)))),
      db\<lparr>sent := sent db @ [Update u now i], rows := set_where_id u now i (rows db)\<rparr>)"
  using assms by (simp add: update_todos_def issue_def Let_def)

text \<open>A successful \<open>updateTodo\<close> passed validation and returns the row it rewrote.\<close>

lemma updateTodo_Some:
  assumes "updateTodo now db i d = (Inr (Some t'), db')"
  shows "update_validation i d = None"
    and "db' = db\<lparr>sent := sent db @ [Update (updateData d) now i],
                  rows := set_where_id (updateData d) now i (rows db)\<rparr>"
    and "map_option fromRow (row_with_id db' i) = Some t'"
proof -
  from assms show v: "update_validation i d = None"
    by (cases "update_validation i d") (simp_all add: updateTodo_def)
  from assms v obtain result where
    u: "update_todos (updateData d) now i db = (Some result, db')"
    and r: "(case result of [] \<Rightarrow> None | t # _ \<Rightarrow> Some t) = Some t'"
    by (auto simp: updateTodo_def split: prod.splits option.splits)
  from update_todos_Some(1) [OF u] show db': "db' = db\<lparr>sent := sent db @ [Update (updateData d) now i],
                  rows := set_where_id (updateData d) now i (rows db)\<rparr>" .
  from r update_todos_Some(2) [OF u] show "map_option fromRow (row_with_id db' i) = Some t'"
    by (simp add: row_with_id_def db' find_as_filter del: holds.simps split: list.splits)
       (auto simp del: holds.simps)
qed

lemma updateTodo_rows:
  assumes "updateTodo now db i d = (Inr (Some t'), db')" and "row_with_id db i = Some r"
  shows "row_with_id db' i = Some (apply_set (updateData d) now r)"
    and "t' = fromRow (apply_set (updateData d) now r)"
proof -
  from updateTodo_Some(2) [OF assms(1)] assms(2)
  show r': "row_with_id db' i = Some (apply_set (updateData d) now r)"
    by (simp add: row_with_id_def find_set_where_id del: holds.simps)
  with updateTodo_Some(3) [OF assms(1)] show "t' = fromRow (apply_set (updateData d) now r)"
    by simp
qed

text \<open>A stored time that is not ahead of the clock is not ahead of the clock's whole seconds.\<close>

lemma stamp_mono:
  assumes "s * 1000 \<le> now"
  shows "s * 1000 \<le> now div 1000 * (1000::int)"
proof -
  from assms have "(s * 1000) div 1000 \<le> now div 1000"
    by (rule zdiv_mono1) simp
  then have "s \<le> now div 1000"
    by simp
  then show ?thesis
    by simp
qed

text \<open>No outcome of \<open>updateTodo\<close> changes a \<open>createdAt\<close> in the table.\<close>

lemma set_where_id_createdAt:
  "map col_createdAt (set_where_id u now i rs) = map col_createdAt rs"
  by (induction rs) (simp_all add: set_where_id_def apply_set_def)

lemma updateTodo_createdAt:
  "map col_createdAt (rows (snd (updateTodo now db i d))) = map col_createdAt (rows db)"
proof (cases "update_validation i d")
  case (Some e)
  then show ?thesis by (simp add: updateTodo_def)
next
  case None
  show ?thesis
  proof (cases "length (sent db) \<in> set (faults db)")
    case True
    with None show ?thesis
      by (simp add: updateTodo_def update_todos_def issue_def)
  next
    case False
    with None show ?thesis
      by (simp add: updateTodo_def update_todos_answers set_where_id_createdAt
          del: holds.simps)
  qed
qed

text \<open>The record a successful \<open>updateTodo\<close> returns, against the one stored before.\<close>

lemma updateTodo_returned:
  assumes "updateTodo now db i d = (Inr (Some t'), db')" and "row_with_id db i = Some r"
  shows "map_option fromRow (row_with_id db' i) = Some t'
       \<and> todo_id t' = todo_id (fromRow r)
       \<and> createdAt t' = createdAt (fromRow r)
       \<and> updatedAt t' = now div 1000 * 1000
       \<and> (updatedAt (fromRow r) \<le> now \<longrightarrow> updatedAt (fromRow r) \<le> updatedAt t')
       \<and> (u_title d = None \<longrightarrow> title t' = title (fromRow r))
       \<and> (u_description d = None \<longrightarrow> description t' = description (fromRow r))
       \<and> (u_completed d = None \<longrightarrow> completed t' = completed (fromRow r))
       \<and> (u_priority d = None \<longrightarrow> priority t' = priority (fromRow r))"
proof -
  note t' = updateTodo_rows(2) [OF assms]
  have "updatedAt (fromRow r) \<le> now \<longrightarrow> updatedAt (fromRow r) \<le> updatedAt t'"
    using stamp_mono [of "col_updatedAt r" now]
    by (simp add: t' fromRow_def apply_set_def mapFromDriverValue_def mapToDriverValue_def)
  then show ?thesis
    using updateTodo_Some(3) [OF assms(1)]
    by (simp add: t' fromRow_def apply_set_def updateData_def mapFromDriverValue_def
        mapToDriverValue_def)
qed

text \<open>
  Claim C2, as the code has it. Whatever its outcome, \<open>updateTodo\<close> leaves every stored
  \<open>createdAt\<close> as it is. After a successful \<open>updateTodo\<close> on an existing record the
  record returned is the one now stored; it has the id and the \<open>createdAt\<close> it had, and
  each of \<open>title\<close>, \<open>description\<close>, \<open>completed\<close> and \<open>priority\<close> that the update
  does not mention has its former value. \<open>updatedAt\<close> becomes the clock reading in
  whole seconds, whatever was stored: it is at least the former \<open>updatedAt\<close> when the
  clock reading is not earlier than that former value.
\<close>

theorem updateTodo_frame:
  "map col_createdAt (rows (snd (updateTodo now db i d))) = map col_createdAt (rows db)
   \<and> (updateTodo now db i d = (Inr (Some t'), db') \<and> row_with_id db i = Some r \<longrightarrow>
        map_option fromRow (row_with_id db' i) = Some t'
        \<and> todo_id t' = todo_id (fromRow r)
        \<and> createdAt t' = createdAt (fromRow r)
        \<and> updatedAt t' = now div 1000 * 1000
        \<and> (updatedAt (fromRow r) \<le> now \<longrightarrow> updatedAt (fromRow r) \<le> updatedAt t')
        \<and> (u_title d = None \<longrightarrow> title t' = title (fromRow r))
        \<and> (u_description d = None \<longrightarrow> description t' = description (fromRow r))
        \<and> (u_completed d = None \<longrightarrow> completed t' = completed (fromRow r))
        \<and> (u_priority d = None \<longrightarrow> priority t' = priority (fromRow r)))"
  using updateTodo_createdAt [of now db i d] updateTodo_returned [of now db i d t' db' r]
  by blast

text \<open>A valid update of an existing record, sent to an engine that answers, succeeds.\<close>

lemma updateTodo_succeeds:
  assumes "update_validation i d = None" and "length (sent db) \<notin> set (faults db)"
    and "row_with_id db i = Some r"
  shows "updateTodo now db i d =
     (Inr (Some (fromRow (apply_set (updateData d) now r))),
      db\<lparr>sent := sent db @ [Update (updateData d) now i],
         rows := set_where_id (updateData d) now i (rows db)\<rparr>)"
proof -
  from assms(3) obtain ys where "filter (\<lambda>r. holds r (IdEq i)) (rows db) = r # ys"
    by (auto simp: row_with_id_def find_as_filter simp del: holds.simps split: list.splits)
  moreover have "filter (\<lambda>r. holds r (IdEq i)) (set_where_id u now' i rs) =
      map (apply_set u now') (filter (\<lambda>r. holds r (IdEq i)) rs)" for u now' rs
    by (induction rs) (simp_all add: set_where_id_def apply_set_def)
  ultimately show ?thesis
    using assms(1,2)
    by (simp add: updateTodo_def update_todos_answers del: holds.simps)
qed


text \<open>Facts about the example table.\<close>

lemma id_one_valid: "\<not> invalid_id (Num 1)" and id_two_valid: "\<not> invalid_id (Num 2)"
  by (simp_all add: invalid_id_def isInteger_def le_zero_def)

lemma example_row_one:
  "row_with_id example_db (Num 1) =
     Some \<lparr>col_id = 1, col_title = [0x61], col_description = Some [0x62],
           col_completed = False, col_priority = High,
           col_createdAt = 1700000000, col_updatedAt = 1700000000\<rparr>"
  by (simp add: row_with_id_def example_db_def)

lemma example_row_two:
  "row_with_id example_db (Num 2) =
     Some \<lparr>col_id = 2, col_title = [0x63], col_description = None,
           col_completed = True, col_priority = Medium,
           col_createdAt = 1700000100, col_updatedAt = 1700000200\<rparr>"
  by (simp add: row_with_id_def example_db_def)

lemma example_db_answers: "length (sent example_db) \<notin> set (faults example_db)"
  by (simp add: example_db_def)

text \<open>Reopening the second example record, the clock ahead of its time-stamps.\<close>

theorem updateTodo_frame_witness:
  "\<exists>t' db'. updateTodo 1800000000999 example_db (Num 2)
       \<lparr>u_title = None, u_description = None, u_completed = Some False,
        u_priority = None\<rparr> = (Inr (Some t'), db')
     \<and> createdAt t' = 1700000100000 \<and> (1700000200000::int) \<le> 1800000000999
     \<and> updatedAt t' = 1800000000000
     \<and> title t' = [0x63] \<and> description t' = None \<and> priority t' = Medium
     \<and> completed t' = False
     \<and> map col_createdAt (rows db') = [1700000000, 1700000100]"
proof -
  let ?d = "\<lparr>u_title = None, u_description = None, u_completed = Some False,
        u_priority = None\<rparr>"
  have v: "update_validation (Num 2) ?d = None"
    by (simp add: update_validation_def id_two_valid)
  obtain t' db' where
    run: "updateTodo 1800000000999 example_db (Num 2) ?d = (Inr (Some t'), db')"
    using updateTodo_succeeds [OF v example_db_answers example_row_two] by blast
  have "completed t' = False"
    using updateTodo_rows(2) [OF run example_row_two]
    by (simp add: fromRow_def apply_set_def updateData_def)
  moreover have "map col_createdAt (rows example_db) = [1700000000, 1700000100]"
    by (simp add: example_db_def)
  ultimately show ?thesis
    using updateTodo_frame [of 1800000000999 example_db "Num 2" ?d t' db'
        "\<lparr>col_id = 2, col_title = [0x63], col_description = None,
           col_completed = True, col_priority = Medium,
           col_createdAt = 1700000100, col_updatedAt = 1700000200\<rparr>"]
      run example_row_two
    by (simp add: fromRow_def mapFromDriverValue_def)
qed

text \<open>
  Against claim C2 as it is worded: the second example record carries the
  \<open>updatedAt\<close> 1700000200000; an update made when the clock reads 1600000000000
  succeeds and returns it with that earlier \<open>updatedAt\<close>.
\<close>

theorem updateTodo_updatedAt_counterexample:
  "fst (getTodoById example_db (Num 2)) =
     Inr (Some \<lparr>todo_id = 2, title = [0x63], description = None, completed = True,
                priority = Medium, createdAt = 1700000100000, updatedAt = 1700000200000\<rparr>)
   \<and> fst (updateTodo 1600000000000 example_db (Num 2)
          \<lparr>u_title = None, u_description = None, u_completed = Some False,
           u_priority = None\<rparr>) =
     Inr (Some \<lparr>todo_id = 2, title = [0x63], description = None, completed = False,
                priority = Medium, createdAt = 1700000100000, updatedAt = 1600000000000\<rparr>)
   \<and> (1600000000000::int) < 1700000200000"
proof -
  let ?d = "\<lparr>u_title = None, u_description = None, u_completed = Some False,
        u_priority = None\<rparr>"
  have v: "update_validation (Num 2) ?d = None"
    by (simp add: update_validation_def id_two_valid)
  have "fst (getTodoById example_db (Num 2)) =
     Inr (Some \<lparr>todo_id = 2, title = [0x63], description = None, completed = True,
                priority = Medium, createdAt = 1700000100000, updatedAt = 1700000200000\<rparr>)"
    by (simp add: getTodoById_def id_two_valid select_from_todos_def issue_def where_and_def
        order_by_def limit_offset_def fromRow_def mapFromDriverValue_def example_db_def)
  then show ?thesis
    unfolding updateTodo_succeeds [OF v example_db_answers example_row_two]
    by (simp add: fromRow_def mapFromDriverValue_def mapToDriverValue_def apply_set_def
        updateData_def)
qed

text \<open>
  What a successful \<open>updateTodo\<close> does with a description it is given: it stores and
  returns the trimmed description when that is not empty; a description that trims to
  nothing reaches \<open>set\<close> as \<open>undefined\<close>, and the stored description stays.
\<close>

lemma updateTodo_description_stored:
  assumes "updateTodo now db i d = (Inr (Some t'), db')" and "row_with_id db i = Some r"
    and "u_description d = Some ds"
  shows "description t' = (if trim ds = [] then description (fromRow r) else Some (trim ds))
       \<and> map_option col_description (row_with_id db' i) = Some (description t')"
  using assms(3) updateTodo_rows [OF assms(1,2)]
  by (simp add: fromRow_def apply_set_def updateData_def)

text \<open>
  Claim C5. An update whose data include a description is to store the trimmed
  description, and null when the description is empty or white space only.
  \<open>updateTodo\<close> does the first and not the second. It tells a description that is given
  but blank from one that is not given, and writes \<open>undefined\<close> for the blank one where
  \<open>createTodo\<close> writes \<open>null\<close>; \<open>set\<close> skips an \<open>undefined\<close> key. So the first
  example record, whose description is \<open>"b"\<close>, updated with the description \<open>" "\<close>,
  comes back and stays stored with the description \<open>"b"\<close>, while \<open>createTodo\<close>
  given the same description stores null.
\<close>

theorem updateTodo_blank_description:
  "trim [0x20] = []
   \<and> fst (updateTodo 1800000000000 example_db (Num 1)
          \<lparr>u_title = None, u_description = Some [0x20], u_completed = None,
           u_priority = None\<rparr>) =
     Inr (Some \<lparr>todo_id = 1, title = [0x61], description = Some [0x62], completed = False,
                priority = High, createdAt = 1700000000000, updatedAt = 1800000000000\<rparr>)
   \<and> map col_description
         (rows (snd (updateTodo 1800000000000 example_db (Num 1)
            \<lparr>u_title = None, u_description = Some [0x20], u_completed = None,
             u_priority = None\<rparr>))) = [Some [0x62], None]
   \<and> fst (createTodo 1800000000000 example_db
          \<lparr>c_title = Some [0x61], c_description = Some [0x20], c_priority = None\<rparr>) =
     Inr \<lparr>todo_id = 3, title = [0x61], description = None, completed = False,
          priority = Medium, createdAt = 1800000000000, updatedAt = 1800000000000\<rparr>"
proof -
  let ?d = "\<lparr>u_title = None, u_description = Some [0x20], u_completed = None,
           u_priority = None\<rparr>"
  have blank: "trim [0x20] = []" and one: "trim [0x61] = [0x61]"
    by (simp_all add: trim_def space_is_space letter_a_not_space)
  have v: "update_validation (Num 1) ?d = None"
    by (simp add: update_validation_def id_one_valid)
  note run = updateTodo_succeeds [OF v example_db_answers example_row_one, of 1800000000000]
  have created: "fst (createTodo 1800000000000 example_db
          \<lparr>c_title = Some [0x61], c_description = Some [0x20], c_priority = None\<rparr>) =
     Inr \<lparr>todo_id = 3, title = [0x61], description = None, completed = False,
          priority = Medium, createdAt = 1800000000000, updatedAt = 1800000000000\<rparr>"
    by (simp add: createTodo_def create_validation_def insert_into_todos_def issue_def
        Let_def one blank trim_or_null_def next_rowid_def fromRow_def mapToDriverValue_def
        mapFromDriverValue_def example_db_def)
  show ?thesis
    unfolding run created
    by (simp add: blank fromRow_def mapFromDriverValue_def mapToDriverValue_def apply_set_def
        updateData_def set_where_id_def example_db_def)
qed

section \<open>Bulk update\<close>
























end
